theory Spec2Isabelle
  imports Complex_Main
begin

section \<open>JavaScript values\<close>

text \<open>
  The repository is TypeScript on top of the AWS CDK. The model keeps what the
  repository's own code computes and hands to the CDK: the properties of every construct
  it creates. What the CDK library does with them afterwards (its own validation of names
  and of property combinations) is outside the model, but for one check that the
  constructor of \<^verbatim>\<open>AccountConfigStack\<close> can run into with ids that it builds from its
  input: a scope refuses a construct id that it already holds.

  A JavaScript string is the list of its characters. A \<open>number\<close> is an IEEE double: a
  finite value (negative zero is not told apart from zero; both are falsy), not-a-number,
  or an infinity. The code does no arithmetic on numbers; it only tests whether one is
  truthy and passes it on.
\<close>

datatype number = Num real | NaN | Infinity | NegInfinity

fun truthy_number :: "number \<Rightarrow> bool" where
  "truthy_number (Num r) = (r \<noteq> 0)"
| "truthy_number NaN = False"
| "truthy_number Infinity = True"
| "truthy_number NegInfinity = True"

text \<open>
  \<^verbatim>\<open>a || b\<close> where \<open>a\<close> is an optional property: \<open>b\<close> is taken when \<open>a\<close> is undefined
  or falsy. The empty string is the falsy string, \<open>0\<close> and \<open>NaN\<close> are the falsy numbers;
  arrays, objects and the CDK's enum members (non-empty strings) are always truthy.
\<close>

fun or_string :: "string option \<Rightarrow> string \<Rightarrow> string" where
  "or_string None d = d"
| "or_string (Some s) d = (if s = [] then d else s)"

fun or_number :: "number option \<Rightarrow> number \<Rightarrow> number" where
  "or_number None d = d"
| "or_number (Some n) d = (if truthy_number n then n else d)"

fun or_object :: "'a option \<Rightarrow> 'a \<Rightarrow> 'a" where
  "or_object None d = d"
| "or_object (Some x) d = x"

text \<open>\<^verbatim>\<open>String.prototype.split\<close> with a one-character separator, and \<^verbatim>\<open>Array.prototype.join\<close>.\<close>

fun split :: "char \<Rightarrow> string \<Rightarrow> string list" where
  "split c [] = [[]]"
| "split c (x # xs) =
     (if x = c then [] # split c xs
      else (case split c xs of [] \<Rightarrow> [[x]] | p # ps \<Rightarrow> (x # p) # ps))"

fun join :: "string \<Rightarrow> string list \<Rightarrow> string" where
  "join sep [] = []"
| "join sep [x] = x"
| "join sep (x # y # ys) = x @ sep @ join sep (y # ys)"

text \<open>
  \<^verbatim>\<open>Array.prototype.slice(start)\<close>: a negative \<open>start\<close> counts from the end, and is
  clamped to the array.
\<close>

definition slice :: "int \<Rightarrow> 'a list \<Rightarrow> 'a list" where
  "slice start xs =
     (let len = int (length xs);
          k = (if start < 0 then max (len + start) 0 else min start len)
      in drop (nat k) xs)"

text \<open>
  A token stands for an attribute of a construct that is only known at deployment
  (\<^verbatim>\<open>this.webAcl.attrArn\<close>, \<^verbatim>\<open>this.bucket.bucketArn\<close>): the construct's id and the
  attribute's name. A template literal that embeds tokens is a list of fragments.
\<close>

datatype Token = Attr string string

datatype Fragment = Lit string | Tok Token

type_synonym Template = "Fragment list"

section \<open>SecureWebsite: the firewall rule translator\<close>

record WafRuleConfiguration =
  limit :: "number option"
  countryCodes :: "string list option"
  name :: "string option"
  ipAddresses :: "string list option"

text \<open>
  \<open>action\<close> and \<open>ruleType\<close> are unions of string literals in the interface; both
  \<^verbatim>\<open>switch\<close> statements have a \<^verbatim>\<open>default\<close> branch, so they are strings here.
\<close>

record WafRule =
  name :: string
  priority :: number
  action :: string
  ruleType :: string
  configuration :: "WafRuleConfiguration option"

text \<open>\<^verbatim>\<open>{ allow: {} }\<close>, \<^verbatim>\<open>{ block: {} }\<close> and \<^verbatim>\<open>{ count: {} }\<close>.\<close>

datatype WafAction = Allow | Block | Count

definition createWafAction :: "string \<Rightarrow> WafAction" where
  "createWafAction a =
     (if a = ''ALLOW'' then Allow
      else if a = ''BLOCK'' then Block
      else if a = ''COUNT'' then Count
      else Allow)"

record CfnIPSet =
  id :: string
  scope :: string
  ipAddressVersion :: string
  addresses :: "string list"

datatype Statement =
    rateBasedStatement number string
  | managedRuleGroupStatement string string
  | geoMatchStatement "string list"
  | ipSetReferenceStatement Token

text \<open>
  \<^verbatim>\<open>createWafStatement\<close> creates a \<^verbatim>\<open>CfnIPSet\<close> construct for an \<^verbatim>\<open>IP_SET\<close> rule: the
  constructs created so far are passed in and returned. \<^verbatim>\<open>rule.configuration?.limit\<close> is
  undefined when the configuration is.
\<close>

definition createWafStatement :: "WafRule \<Rightarrow> CfnIPSet list \<Rightarrow> Statement \<times> CfnIPSet list" where
  "createWafStatement rule ipSets =
     (if ruleType rule = ''RATE_LIMIT'' then
        (rateBasedStatement
           (or_number (Option.bind (configuration rule) limit) (Num 2000)) ''IP'', ipSets)
      else if ruleType rule = ''MANAGED_RULE'' then
        (managedRuleGroupStatement ''AWS''
           (or_string (Option.bind (configuration rule) WafRuleConfiguration.name)
              ''AWSManagedRulesCommonRuleSet''), ipSets)
      else if ruleType rule = ''GEO_BLOCK'' then
        (geoMatchStatement
           (or_object (Option.bind (configuration rule) countryCodes) [''CN'', ''RU'']), ipSets)
      else if ruleType rule = ''IP_SET'' then
        (let ipSet = \<lparr>CfnIPSet.id = ''IPSet-'' @ WafRule.name rule, scope = ''CLOUDFRONT'',
                      ipAddressVersion = ''IPV4'',
                      addresses = or_object (Option.bind (configuration rule) ipAddresses) []\<rparr>
         in (ipSetReferenceStatement (Attr (CfnIPSet.id ipSet) ''attrArn''), ipSets @ [ipSet]))
      else
        (managedRuleGroupStatement ''AWS'' ''AWSManagedRulesCommonRuleSet'', ipSets))"

record VisibilityConfig =
  sampledRequestsEnabled :: bool
  cloudWatchMetricsEnabled :: bool
  metricName :: string

record RuleProperty =
  name :: string
  priority :: number
  action :: WafAction
  statement :: Statement
  visibilityConfig :: VisibilityConfig

record CfnWebACL =
  scope :: string
  defaultAction :: WafAction
  rules :: "RuleProperty list"
  visibilityConfig :: VisibilityConfig

text \<open>The \<^verbatim>\<open>rules.map\<close> of \<^verbatim>\<open>createWebAcl\<close>, in array order.\<close>

fun createRuleProperties :: "WafRule list \<Rightarrow> CfnIPSet list \<Rightarrow> RuleProperty list \<times> CfnIPSet list" where
  "createRuleProperties [] ipSets = ([], ipSets)"
| "createRuleProperties (rule # rest) ipSets =
     (let (st, ipSets1) = createWafStatement rule ipSets;
          wafRule = \<lparr>RuleProperty.name = WafRule.name rule,
                     priority = WafRule.priority rule,
                     action = createWafAction (WafRule.action rule),
                     statement = st,
                     visibilityConfig =
                       \<lparr>sampledRequestsEnabled = True, cloudWatchMetricsEnabled = True,
                        metricName = WafRule.name rule\<rparr>\<rparr>;
          (wafRules, ipSets2) = createRuleProperties rest ipSets1
      in (wafRule # wafRules, ipSets2))"

definition createWebAcl :: "WafRule list \<Rightarrow> CfnWebACL \<times> CfnIPSet list" where
  "createWebAcl rs =
     (let (wafRules, ipSets) = createRuleProperties rs []
      in (\<lparr>CfnWebACL.scope = ''CLOUDFRONT'', defaultAction = Allow, rules = wafRules,
           visibilityConfig =
             \<lparr>sampledRequestsEnabled = True, cloudWatchMetricsEnabled = True,
              metricName = ''SecureWebsiteWAF''\<rparr>\<rparr>, ipSets))"

definition getDefaultWafRules :: "WafRule list" where
  "getDefaultWafRules =
     [\<lparr>WafRule.name = ''AWSManagedRulesCommonRuleSet'', priority = Num 1, action = ''BLOCK'',
       ruleType = ''MANAGED_RULE'',
       configuration = Some \<lparr>limit = None, countryCodes = None,
         name = Some ''AWSManagedRulesCommonRuleSet'', ipAddresses = None\<rparr>\<rparr>,
      \<lparr>WafRule.name = ''AWSManagedRulesKnownBadInputsRuleSet'', priority = Num 2, action = ''BLOCK'',
       ruleType = ''MANAGED_RULE'',
       configuration = Some \<lparr>limit = None, countryCodes = None,
         name = Some ''AWSManagedRulesKnownBadInputsRuleSet'', ipAddresses = None\<rparr>\<rparr>,
      \<lparr>WafRule.name = ''AWSManagedRulesLinuxRuleSet'', priority = Num 3, action = ''BLOCK'',
       ruleType = ''MANAGED_RULE'',
       configuration = Some \<lparr>limit = None, countryCodes = None,
         name = Some ''AWSManagedRulesLinuxRuleSet'', ipAddresses = None\<rparr>\<rparr>,
      \<lparr>WafRule.name = ''RateLimitRule'', priority = Num 10, action = ''BLOCK'',
       ruleType = ''RATE_LIMIT'',
       configuration = Some \<lparr>limit = Some (Num 2000), countryCodes = None,
         name = None, ipAddresses = None\<rparr>\<rparr>]"

definition getApexDomain :: "string \<Rightarrow> string" where
  "getApexDomain domainName =
     (let parts = split CHR ''.'' domainName
      in if length parts \<ge> 2 then join ''.'' (slice (- 2) parts) else domainName)"

section \<open>SecureWebsite: the construct\<close>

text \<open>
  Members of the CDK's enums that a caller can choose. Constants of the library that the
  code passes on unchanged (\<^verbatim>\<open>BlockPublicAccess.BLOCK_ALL\<close>, \<^verbatim>\<open>CachePolicy.CACHING_OPTIMIZED\<close>)
  are kept as their names.
\<close>

datatype RemovalPolicy = DESTROY | RETAIN | SNAPSHOT | RETAIN_ON_UPDATE_OR_DELETE

datatype PriceClass = PRICE_CLASS_100 | PRICE_CLASS_200 | PRICE_CLASS_ALL

datatype Duration = Duration_days nat | Duration_minutes nat

datatype HostedZone = fromHostedZoneId string | fromLookup string

record Certificate =
  domainName :: string
  subjectAlternativeNames :: "string list option"
  validation :: HostedZone

record LifecycleRule =
  id :: string
  enabled :: bool
  expiration :: Duration

record Bucket =
  bucketName :: "string option"
  publicReadAccess :: bool
  blockPublicAccess :: string
  removalPolicy :: RemovalPolicy
  autoDeleteObjects :: bool
  versioned :: "bool option"
  encryption :: "string option"
  lifecycleRules :: "LifecycleRule list option"

record S3OriginAccessControl =
  description :: string

text \<open>Constructs refer to each other by construct id.\<close>

record S3BucketOrigin =
  bucket :: string
  originAccessControl :: string

record BehaviorOptions =
  origin :: S3BucketOrigin
  viewerProtocolPolicy :: string
  allowedMethods :: "string option"
  cachedMethods :: "string option"
  compress :: "bool option"
  cachePolicy :: "string option"
  originRequestPolicy :: "string option"
  responseHeadersPolicy :: "string option"

record ErrorResponse =
  httpStatus :: nat
  responseHttpStatus :: nat
  responsePagePath :: string
  ttl :: Duration

record Distribution =
  defaultBehavior :: BehaviorOptions
  additionalBehaviors :: "(string \<times> BehaviorOptions) list"
  domainNames :: "string list"
  certificate :: string
  defaultRootObject :: string
  errorResponses :: "ErrorResponse list"
  priceClass :: PriceClass
  comment :: string
  webAclId :: "Token option"
  enableLogging :: "bool option"
  logBucket :: "string option"
  logFilePrefix :: string
  logIncludesCookies :: bool

text \<open>\<open>conditions\<close>: operator, key and value of each condition.\<close>

record PolicyStatement =
  effect :: string
  principals :: "string list"
  actions :: "string list"
  resources :: "Template list"
  conditions :: "(string \<times> string \<times> Template) list"

record AliasRecord =
  zone :: HostedZone
  recordName :: string
  target :: string

record BucketDeployment =
  sources :: "string list"
  destinationBucket :: string
  distribution :: string
  distributionPaths :: "string list"
  prune :: bool
  retainOnDelete :: bool

record CfnOutput =
  id :: string
  "value" :: Template
  description :: string

record SecureWebsiteProps =
  domainName :: string
  account :: "string option"
  hostedZoneId :: "string option"
  bucketName :: "string option"
  distributionComment :: "string option"
  errorDocument :: "string option"
  indexDocument :: "string option"
  enableWaf :: "bool option"
  wafRules :: "WafRule list option"
  codeSourcePath :: "string option"
  priceClass :: "PriceClass option"
  removalPolicy :: "RemovalPolicy option"
  subjectAlternativeNames :: "string list option"
  enableLogging :: "bool option"
  logsBucketName :: "string option"

text \<open>
  The constructs a \<^verbatim>\<open>SecureWebsite\<close> holds after its constructor has run: its fields,
  and the constructs and outputs it created without keeping a field for them (the
  origin access control, the address sets, the statement added to the bucket's policy,
  the outputs). Their construct ids are \<^verbatim>\<open>HostedZone\<close>, \<^verbatim>\<open>Certificate\<close>,
  \<^verbatim>\<open>WebsiteBucket\<close>, \<^verbatim>\<open>LogsBucket\<close>, \<^verbatim>\<open>OAC\<close>, \<^verbatim>\<open>IPSet-\<close>\<open>name\<close>, \<^verbatim>\<open>WebACL\<close>,
  \<^verbatim>\<open>Distribution\<close>, \<^verbatim>\<open>ARecord\<close>, \<^verbatim>\<open>AaaaRecord\<close> and \<^verbatim>\<open>WebsiteDeployment\<close>.
\<close>

record SecureWebsite =
  account :: string
  hostedZone :: HostedZone
  certificate :: Certificate
  bucket :: Bucket
  logsBucket :: "Bucket option"
  originAccessControl :: S3OriginAccessControl
  ipSets :: "CfnIPSet list"
  webAcl :: "CfnWebACL option"
  distribution :: Distribution
  bucketPolicy :: PolicyStatement
  aRecord :: AliasRecord
  aaaaRecord :: AliasRecord
  deployment :: "BucketDeployment option"
  outputs :: "CfnOutput list"

text \<open>
  \<^verbatim>\<open>createOutputs\<close> reads \<open>props\<close>, \<^verbatim>\<open>this.webAcl\<close> and \<^verbatim>\<open>this.logsBucket\<close>; the other
  values are tokens of constructs that always exist.
\<close>

definition createOutputs :: "SecureWebsiteProps \<Rightarrow> CfnWebACL option \<Rightarrow> Bucket option \<Rightarrow> CfnOutput list" where
  "createOutputs props acl logs =
     [\<lparr>CfnOutput.id = ''WebsiteUrl'',
       value = [Lit (''https://'' @ SecureWebsiteProps.domainName props)],
       description = ''Website URL''\<rparr>,
      \<lparr>CfnOutput.id = ''BucketName'',
       value = [Tok (Attr ''WebsiteBucket'' ''bucketName'')],
       description = ''S3 bucket name for website content''\<rparr>,
      \<lparr>CfnOutput.id = ''DistributionId'',
       value = [Tok (Attr ''Distribution'' ''distributionId'')],
       description = ''CloudFront distribution ID''\<rparr>,
      \<lparr>CfnOutput.id = ''CertificateArn'',
       value = [Tok (Attr ''Certificate'' ''certificateArn'')],
       description = ''ACM certificate ARN''\<rparr>]
     @ (if acl \<noteq> None then
          [\<lparr>CfnOutput.id = ''WebAclArn'',
            value = [Tok (Attr ''WebACL'' ''attrArn'')],
            description = ''WAF WebACL ARN''\<rparr>]
        else [])
     @ (if logs \<noteq> None then
          [\<lparr>CfnOutput.id = ''LogsBucketName'',
            value = [Tok (Attr ''LogsBucket'' ''bucketName'')],
            description = ''CloudFront logs bucket name''\<rparr>]
        else [])"

definition SecureWebsite :: "SecureWebsiteProps \<Rightarrow> SecureWebsite" where
  "SecureWebsite props =
     (let account = or_string (SecureWebsiteProps.account props) ''*'';
          hostedZone =
            (case hostedZoneId props of
               None \<Rightarrow> fromLookup (getApexDomain (SecureWebsiteProps.domainName props))
             | Some z \<Rightarrow>
                 if z \<noteq> [] then fromHostedZoneId z
                 else fromLookup (getApexDomain (SecureWebsiteProps.domainName props)));
          certificate =
            \<lparr>Certificate.domainName = SecureWebsiteProps.domainName props,
             subjectAlternativeNames = SecureWebsiteProps.subjectAlternativeNames props,
             validation = hostedZone\<rparr>;
          bucket =
            \<lparr>Bucket.bucketName = SecureWebsiteProps.bucketName props,
             publicReadAccess = False,
             blockPublicAccess = ''BlockPublicAccess.BLOCK_ALL'',
             removalPolicy = or_object (SecureWebsiteProps.removalPolicy props) DESTROY,
             autoDeleteObjects = (SecureWebsiteProps.removalPolicy props = Some DESTROY),
             versioned = Some True,
             encryption = Some ''BucketEncryption.S3_MANAGED'',
             lifecycleRules = None\<rparr>;
          logsBucket =
            (if SecureWebsiteProps.enableLogging props = Some True then
               Some \<lparr>Bucket.bucketName = logsBucketName props,
                 publicReadAccess = False,
                 blockPublicAccess = ''BlockPublicAccess.BLOCK_ALL'',
                 removalPolicy = or_object (SecureWebsiteProps.removalPolicy props) DESTROY,
                 autoDeleteObjects = (SecureWebsiteProps.removalPolicy props = Some DESTROY),
                 versioned = None,
                 encryption = None,
                 lifecycleRules =
                   Some [\<lparr>LifecycleRule.id = ''DeleteOldLogs'', enabled = True,
                          expiration = Duration_days 90\<rparr>]\<rparr>
             else None);
          originAccessControl =
            \<lparr>S3OriginAccessControl.description =
               ''OAC for '' @ SecureWebsiteProps.domainName props\<rparr>;
          (webAcl, ipSets) =
            (if enableWaf props \<noteq> Some False then
               (let (acl, sets) = createWebAcl (or_object (wafRules props) getDefaultWafRules)
                in (Some acl, sets))
             else (None, []));
          indexPage = or_string (indexDocument props) ''index.html'';
          distribution =
            \<lparr>defaultBehavior =
               \<lparr>origin = \<lparr>S3BucketOrigin.bucket = ''WebsiteBucket'',
                           originAccessControl = ''OAC''\<rparr>,
                viewerProtocolPolicy = ''ViewerProtocolPolicy.REDIRECT_TO_HTTPS'',
                allowedMethods = Some ''AllowedMethods.ALLOW_GET_HEAD_OPTIONS'',
                cachedMethods = Some ''CachedMethods.CACHE_GET_HEAD_OPTIONS'',
                compress = Some True,
                cachePolicy = Some ''CachePolicy.CACHING_OPTIMIZED'',
                originRequestPolicy = Some ''OriginRequestPolicy.CORS_S3_ORIGIN'',
                responseHeadersPolicy = Some ''ResponseHeadersPolicy.SECURITY_HEADERS''\<rparr>,
             additionalBehaviors =
               [(''/api/*'',
                 \<lparr>origin = \<lparr>S3BucketOrigin.bucket = ''WebsiteBucket'',
                             originAccessControl = ''OAC''\<rparr>,
                  viewerProtocolPolicy = ''ViewerProtocolPolicy.REDIRECT_TO_HTTPS'',
                  allowedMethods = Some ''AllowedMethods.ALLOW_ALL'',
                  cachedMethods = None,
                  compress = None,
                  cachePolicy = Some ''CachePolicy.CACHING_DISABLED'',
                  originRequestPolicy = None,
                  responseHeadersPolicy = None\<rparr>)],
             domainNames =
               SecureWebsiteProps.domainName props
                 # or_object (SecureWebsiteProps.subjectAlternativeNames props) [],
             certificate = ''Certificate'',
             defaultRootObject = indexPage,
             errorResponses =
               [\<lparr>httpStatus = 403, responseHttpStatus = 200,
                 responsePagePath = ''/'' @ indexPage, ttl = Duration_minutes 5\<rparr>,
                \<lparr>httpStatus = 404, responseHttpStatus = 200,
                 responsePagePath = ''/'' @ indexPage, ttl = Duration_minutes 5\<rparr>],
             priceClass = or_object (SecureWebsiteProps.priceClass props) PRICE_CLASS_100,
             comment =
               or_string (distributionComment props)
                 (''Secure website for '' @ SecureWebsiteProps.domainName props),
             webAclId = map_option (\<lambda>acl. Attr ''WebACL'' ''attrArn'') webAcl,
             enableLogging = SecureWebsiteProps.enableLogging props,
             logBucket = map_option (\<lambda>b. ''LogsBucket'') logsBucket,
             logFilePrefix = ''cloudfront-logs/'',
             logIncludesCookies = True\<rparr>;
          bucketPolicy =
            \<lparr>effect = ''Effect.ALLOW'',
             principals = [''cloudfront.amazonaws.com''],
             actions = [''s3:GetObject''],
             resources = [[Tok (Attr ''WebsiteBucket'' ''bucketArn''), Lit ''/*'']],
             conditions =
               [(''StringEquals'', ''AWS:SourceArn'',
                 [Lit (''arn:aws:cloudfront::'' @ account @ '':distribution/''),
                  Tok (Attr ''Distribution'' ''distributionId'')])]\<rparr>;
          aRecord =
            \<lparr>zone = hostedZone, recordName = SecureWebsiteProps.domainName props,
             target = ''Distribution''\<rparr>;
          aaaaRecord =
            \<lparr>zone = hostedZone, recordName = SecureWebsiteProps.domainName props,
             target = ''Distribution''\<rparr>;
          deployment =
            (case codeSourcePath props of
               None \<Rightarrow> None
             | Some path \<Rightarrow>
                 if path \<noteq> [] then
                   Some \<lparr>sources = [path], destinationBucket = ''WebsiteBucket'',
                     distribution = ''Distribution'', distributionPaths = [''/*''],
                     prune = True, retainOnDelete = False\<rparr>
                 else None)
      in \<lparr>SecureWebsite.account = account,
          hostedZone = hostedZone,
          certificate = certificate,
          bucket = bucket,
          logsBucket = logsBucket,
          originAccessControl = originAccessControl,
          ipSets = ipSets,
          webAcl = webAcl,
          distribution = distribution,
          bucketPolicy = bucketPolicy,
          aRecord = aRecord,
          aaaaRecord = aaaaRecord,
          deployment = deployment,
          outputs = createOutputs props webAcl logsBucket\<rparr>)"

section \<open>AccountConfigStack\<close>

text \<open>
  A value of the parsed context file. An object is the list of its own properties in
  property order, each key once.
\<close>

datatype json =
    JNull
  | JBool bool
  | JNumber number
  | JString string
  | JArray "json list"
  | JObject "(string \<times> json) list"

type_synonym AccountConfig = "(string \<times> json) list"

text \<open>
  Reading \<^verbatim>\<open>obj[key]\<close> on a plain object finds an own property first and then a member
  of \<^verbatim>\<open>Object.prototype\<close>, the prototype of every object that \<^verbatim>\<open>JSON.parse\<close> or an
  object literal creates. Those members are functions, and \<^verbatim>\<open>__proto__\<close> is the
  prototype object itself: none of them is \<^verbatim>\<open>undefined\<close>, all are truthy, and none
  has an own enumerable property.
\<close>

definition Object_prototype :: "string list" where
  "Object_prototype =
     [''constructor'', ''__defineGetter__'', ''__defineSetter__'', ''hasOwnProperty'',
      ''__lookupGetter__'', ''__lookupSetter__'', ''isPrototypeOf'', ''propertyIsEnumerable'',
      ''toString'', ''valueOf'', ''__proto__'', ''toLocaleString'']"

datatype 'a Property = Own 'a | Inherited string | Undefined

definition get_property :: "(string \<times> 'a) list \<Rightarrow> string \<Rightarrow> 'a Property" where
  "get_property obj key =
     (case map_of obj key of
        Some v \<Rightarrow> Own v
      | None \<Rightarrow> if key \<in> set Object_prototype then Inherited key else Undefined)"

text \<open>
  Writing \<^verbatim>\<open>obj[key] = v\<close> on a plain object, \<open>v\<close> an object: the key \<^verbatim>\<open>__proto__\<close> is the
  prototype's setter and creates no own property; any other key is overwritten or added.
\<close>

definition set_property :: "(string \<times> 'a) list \<Rightarrow> string \<Rightarrow> 'a \<Rightarrow> (string \<times> 'a) list" where
  "set_property obj key v =
     (if key = ''__proto__'' then obj
      else if key \<in> set (map fst obj)
        then map (\<lambda>(k, w). if k = key then (k, v) else (k, w)) obj
      else obj @ [(key, v)])"

text \<open>
  What the constructor takes from outside the repository: the account of the enclosing
  stack (\<^verbatim>\<open>this.account\<close>), the default path
  \<^verbatim>\<open>path.join(process.cwd(), 'cdk.context.json')\<close>, the file system with \<^verbatim>\<open>JSON.parse\<close>
  (\<open>Inl\<close> the text of what \<^verbatim>\<open>readFileSync\<close> or \<^verbatim>\<open>JSON.parse\<close> throws, \<open>Inr\<close> the parsed
  document, typed as the source declares it), \<^verbatim>\<open>JSON.stringify\<close> and
  \<^verbatim>\<open>String.prototype.toUpperCase\<close>.
\<close>

record Environment =
  account :: string
  defaultContextFilePath :: string
  readContext :: "string \<Rightarrow> string + (string \<times> AccountConfig) list"
  JSON_stringify :: "json \<Rightarrow> string"
  toUpperCase :: "string \<Rightarrow> string"

record AccountConfigStackProps =
  accountId :: "string option"
  contextFilePath :: "string option"
  parameterPrefix :: "string option"

record StringParameter =
  id :: string
  parameterName :: string
  stringValue :: string
  description :: string
  tier :: string

text \<open>
  \<^verbatim>\<open>this.config\<close> is what \<^verbatim>\<open>accountsContext[this.accountId]\<close> evaluated to: a record of
  the document, or a member of \<^verbatim>\<open>Object.prototype\<close>.
\<close>

datatype Config = Record AccountConfig | ObjectPrototypeMember string

text \<open>
  The stack after its constructor has run: its fields (\<open>parameters\<close> the own properties
  of \<^verbatim>\<open>this.parameters\<close>), the \<^verbatim>\<open>StringParameter\<close> constructs in the order of their
  creation, and the outputs.
\<close>

record AccountConfigStack =
  accountId :: string
  config :: Config
  parameters :: "(string \<times> StringParameter) list"
  constructs :: "StringParameter list"
  outputs :: "CfnOutput list"

text \<open>
  An error thrown by the repository's code carries its message; \<open>DuplicateIdError\<close> is
  the error of the scope below, with the id that was refused.
\<close>

datatype error = Error string | DuplicateIdError string

text \<open>
  Modelled from the spec: the scope in which the stack's constructs are declared, which is
  code of the constructs library and not of the repository. The spec's graph builder
  (section 4.1) fails with \<open>DuplicateIdError\<close> when a local id is used a second time in the
  same graph. \<^verbatim>\<open>new ssm.StringParameter(this, id, ...)\<close> and \<^verbatim>\<open>new CfnOutput(this, id, ...)\<close>
  add a child to the scope of the stack under \<open>id\<close>; the scope is the list of the ids
  it holds. Ids are compared as the code builds them (the library's escaping of a \<^verbatim>\<open>/\<close>
  in an id is left out).
\<close>

definition addChild :: "string list \<Rightarrow> string \<Rightarrow> error + string list" where
  "addChild ids childName =
     (if childName \<in> set ids then Inl (DuplicateIdError childName)
      else Inr (ids @ [childName]))"

definition Object_entries :: "Config \<Rightarrow> (string \<times> json) list" where
  "Object_entries c = (case c of Record r \<Rightarrow> r | ObjectPrototypeMember m \<Rightarrow> [])"

definition capitalizeFirst :: "Environment \<Rightarrow> string \<Rightarrow> string" where
  "capitalizeFirst env str = toUpperCase env (take 1 str) @ drop 1 str"

text \<open>
  The \<^verbatim>\<open>forEach\<close> of \<^verbatim>\<open>uploadConfigToParameterStore\<close> over the entries: each one creates
  a construct in the scope of the stack and stores it in \<^verbatim>\<open>this.parameters\<close>. The state
  is the scope, the constructs created so far and the own properties of
  \<^verbatim>\<open>this.parameters\<close>; the first id that the scope refuses ends the loop with the error.
\<close>

fun uploadEntries ::
  "Environment \<Rightarrow> string \<Rightarrow> (string \<times> json) list \<Rightarrow>
   string list \<times> StringParameter list \<times> (string \<times> StringParameter) list \<Rightarrow>
   error + string list \<times> StringParameter list \<times> (string \<times> StringParameter) list" where
  "uploadEntries env prefix [] st = Inr st"
| "uploadEntries env prefix ((key, v) # rest) (ids, cs, ps) =
     (let pname = prefix @ ''/'' @ key;
          sval = (case v of JString s \<Rightarrow> s | _ \<Rightarrow> JSON_stringify env v);
          p = \<lparr>StringParameter.id = ''Parameter'' @ capitalizeFirst env key,
               parameterName = pname,
               stringValue = sval,
               description = ''Account configuration value for '' @ key,
               tier = ''ParameterTier.STANDARD''\<rparr>
      in case addChild ids (StringParameter.id p) of
           Inl e \<Rightarrow> Inl e
         | Inr ids1 \<Rightarrow>
             uploadEntries env prefix rest (ids1, cs @ [p], set_property ps key p))"

definition uploadConfigToParameterStore ::
  "Environment \<Rightarrow> string \<Rightarrow> Config \<Rightarrow>
   error + string list \<times> StringParameter list \<times> (string \<times> StringParameter) list" where
  "uploadConfigToParameterStore env prefix c =
     uploadEntries env prefix (Object_entries c) ([], [], [])"

definition getAllConfigKeys :: "Config \<Rightarrow> string list" where
  "getAllConfigKeys c = map fst (Object_entries c)"

text \<open>The outputs are declared in the scope of the stack one after the other.\<close>

fun addOutputs :: "string list \<Rightarrow> CfnOutput list \<Rightarrow> error + string list" where
  "addOutputs ids [] = Inr ids"
| "addOutputs ids (out # rest) =
     (case addChild ids (CfnOutput.id out) of
        Inl e \<Rightarrow> Inl e
      | Inr ids1 \<Rightarrow> addOutputs ids1 rest)"

definition createStackOutputs ::
  "Environment \<Rightarrow> string list \<Rightarrow> string \<Rightarrow> Config \<Rightarrow> (string \<times> StringParameter) list \<Rightarrow>
   string \<Rightarrow> error + CfnOutput list" where
  "createStackOutputs env ids acct c ps prefix =
     (let outs =
        [\<lparr>CfnOutput.id = ''AccountId'', value = [Lit acct],
          description = ''AWS Account ID''\<rparr>,
         \<lparr>CfnOutput.id = ''ParameterPrefix'', value = [Lit prefix],
          description = ''Parameter Store prefix for account configuration''\<rparr>,
         \<lparr>CfnOutput.id = ''ConfigKeys'', value = [Lit (join '','' (getAllConfigKeys c))],
          description = ''Available configuration keys''\<rparr>]
        @ map (\<lambda>(key, parameter).
             \<lparr>CfnOutput.id = capitalizeFirst env key @ ''ParameterArn'',
              value = [Tok (Attr (StringParameter.id parameter) ''parameterArn'')],
              description = ''Parameter Store ARN for '' @ key\<rparr>) ps
      in case addOutputs ids outs of Inl e \<Rightarrow> Inl e | Inr ids1 \<Rightarrow> Inr outs)"

text \<open>
  What the constructor does once \<^verbatim>\<open>this.config\<close> is set: the parameters, then the
  outputs.
\<close>

definition publish ::
  "Environment \<Rightarrow> string \<Rightarrow> string \<Rightarrow> Config \<Rightarrow> error + AccountConfigStack" where
  "publish env acct prefix c =
     (case uploadConfigToParameterStore env prefix c of
        Inl e \<Rightarrow> Inl e
      | Inr (ids, cs, ps) \<Rightarrow>
          (case createStackOutputs env ids acct c ps prefix of
             Inl e \<Rightarrow> Inl e
           | Inr outs \<Rightarrow>
               Inr \<lparr>AccountConfigStack.accountId = acct,
                    config = c,
                    parameters = ps,
                    constructs = cs,
                    outputs = outs\<rparr>))"

text \<open>
  The constructor. \<^verbatim>\<open>!accountsContext[this.accountId]\<close> holds only when the read gives
  \<^verbatim>\<open>undefined\<close>: a record of the document is an object, and so truthy, and so is every
  member of \<^verbatim>\<open>Object.prototype\<close>.
\<close>

definition AccountConfigStack :: "Environment \<Rightarrow> AccountConfigStackProps \<Rightarrow> error + AccountConfigStack" where
  "AccountConfigStack env props =
     (let acct = or_string (AccountConfigStackProps.accountId props) (Environment.account env);
          path = or_string (contextFilePath props) (defaultContextFilePath env);
          prefix = or_string (parameterPrefix props) (''/account-config/'' @ acct)
      in case readContext env path of
           Inl err \<Rightarrow>
             Inl (Error (''Failed to read or parse context file at '' @ path @ '': '' @ err))
         | Inr accountsContext \<Rightarrow>
             (case get_property accountsContext acct of
                Undefined \<Rightarrow>
                  Inl (Error (''No configuration found for account ID '' @ [CHR 0x27] @ acct
                              @ [CHR 0x27] @ ''. Available accounts: ''
                              @ join '', '' (map fst accountsContext)))
              | Own r \<Rightarrow> publish env acct prefix (Record r)
              | Inherited m \<Rightarrow> publish env acct prefix (ObjectPrototypeMember m)))"

text \<open>
  \<^verbatim>\<open>getConfigValue\<close> on a stack whose configuration is a record of the document:
  \<^verbatim>\<open>this.config[key]\<close> is a value of the record, or a member of \<^verbatim>\<open>Object.prototype\<close>, or
  undefined, and only then the default (undefined itself when none is given) is returned.
\<close>

datatype 'd ConfigValue = Raw json | Member string | Default 'd | Absent

definition getConfigValue :: "AccountConfig \<Rightarrow> string \<Rightarrow> 'd option \<Rightarrow> 'd ConfigValue" where
  "getConfigValue c key defaultValue =
     (case get_property c key of
        Own v \<Rightarrow> Raw v
      | Inherited m \<Rightarrow> Member m
      | Undefined \<Rightarrow> (case defaultValue of Some d \<Rightarrow> Default d | None \<Rightarrow> Absent))"

definition hasConfig :: "AccountConfig \<Rightarrow> string \<Rightarrow> bool" where
  "hasConfig c key = (get_property c key \<noteq> Undefined)"

section \<open>Example inputs\<close>

text \<open>
  The props of \<^verbatim>\<open>SimpleWebsiteStack\<close> in \<^verbatim>\<open>example-stack.ts\<close>: only the domain name is
  given.
\<close>

definition minimalProps :: "string \<Rightarrow> SecureWebsiteProps" where
  "minimalProps d =
     \<lparr>SecureWebsiteProps.domainName = d, account = None, hostedZoneId = None,
      bucketName = None, distributionComment = None, errorDocument = None,
      indexDocument = None, enableWaf = None, wafRules = None, codeSourcePath = None,
      priceClass = None, removalPolicy = None, subjectAlternativeNames = None,
      enableLogging = None, logsBucketName = None\<rparr>"

text \<open>The rate-limit rule of \<^verbatim>\<open>AdvancedWebsiteStack\<close>, with the limit left open.\<close>

definition rateLimitRule :: "number option \<Rightarrow> WafRule" where
  "rateLimitRule l =
     \<lparr>WafRule.name = ''CustomRateLimit'', priority = Num 1, action = ''BLOCK'',
      ruleType = ''RATE_LIMIT'',
      configuration = Some \<lparr>limit = l, countryCodes = None,
        name = None, ipAddresses = None\<rparr>\<rparr>"

text \<open>Props whose only firewall rule is a rate limit of 0, and what the rule resolves to.\<close>

definition zeroLimitProps :: SecureWebsiteProps where
  "zeroLimitProps = (minimalProps ''mysite.example.com'')\<lparr>wafRules := Some [rateLimitRule (Some (Num 0))]\<rparr>"

definition zeroLimitRule :: RuleProperty where
  "zeroLimitRule =
     \<lparr>RuleProperty.name = ''CustomRateLimit'', priority = Num 1, action = Block,
      statement = rateBasedStatement (Num 2000) ''IP'',
      visibilityConfig =
        \<lparr>sampledRequestsEnabled = True, cloudWatchMetricsEnabled = True,
         metricName = ''CustomRateLimit''\<rparr>\<rparr>"

definition zeroLimitAcl :: CfnWebACL where
  "zeroLimitAcl =
     \<lparr>CfnWebACL.scope = ''CLOUDFRONT'', defaultAction = Allow, rules = [zeroLimitRule],
      visibilityConfig =
        \<lparr>sampledRequestsEnabled = True, cloudWatchMetricsEnabled = True,
         metricName = ''SecureWebsiteWAF''\<rparr>\<rparr>"

text \<open>
  The document of the specification's example, and an environment whose file system holds
  it at the default path. All values of the example are strings, so \<^verbatim>\<open>JSON.stringify\<close>
  is never applied in it; \<^verbatim>\<open>toUpperCase\<close> is the one of ASCII.
\<close>

definition exampleRecord :: AccountConfig where
  "exampleRecord = [(''stage'', JString ''dev''), (''zone'', JString ''dev.example.com'')]"

definition exampleContext :: "(string \<times> AccountConfig) list" where
  "exampleContext = [(''123456789012'', exampleRecord)]"

definition upper_ascii :: "char \<Rightarrow> char" where
  "upper_ascii c =
     (case map_of (zip ''abcdefghijklmnopqrstuvwxyz'' ''ABCDEFGHIJKLMNOPQRSTUVWXYZ'') c of
        None \<Rightarrow> c
      | Some u \<Rightarrow> u)"

definition exampleEnvironment :: Environment where
  "exampleEnvironment =
     \<lparr>Environment.account = ''123456789012'',
      defaultContextFilePath = ''/app/cdk.context.json'',
      readContext = (\<lambda>path. if path = ''/app/cdk.context.json'' then Inr exampleContext
                              else Inl ''Error: ENOENT: no such file or directory''),
      JSON_stringify = (\<lambda>v. []),
      toUpperCase = map upper_ascii\<rparr>"

definition exampleProps :: "string \<Rightarrow> AccountConfigStackProps" where
  "exampleProps a =
     \<lparr>AccountConfigStackProps.accountId = Some a, contextFilePath = None,
      parameterPrefix = None\<rparr>"

text \<open>
  A second document. The record of account \<^verbatim>\<open>123456789012\<close> has two keys that differ in
  the case of the first letter only; the record of account \<^verbatim>\<open>123456789013\<close>, the account
  of the environment, has a value that is not a string. \<^verbatim>\<open>JSON.stringify\<close> is given on
  \<^verbatim>\<open>null\<close> and the booleans, which is all the record needs.
\<close>

definition mixedCaseRecord :: AccountConfig where
  "mixedCaseRecord = [(''stage'', JString ''dev''), (''Stage'', JString ''prod'')]"

definition flagRecord :: AccountConfig where
  "flagRecord = [(''stage'', JString ''prod''), (''debug'', JBool True)]"

definition secondEnvironment :: Environment where
  "secondEnvironment =
     \<lparr>Environment.account = ''123456789013'',
      defaultContextFilePath = ''/app/cdk.context.json'',
      readContext = (\<lambda>path. if path = ''/app/cdk.context.json''
                              then Inr [(''123456789012'', mixedCaseRecord),
                                        (''123456789013'', flagRecord)]
                              else Inl ''Error: ENOENT: no such file or directory''),
      JSON_stringify = (\<lambda>v. case v of JNull \<Rightarrow> ''null''
                                | JBool b \<Rightarrow> (if b then ''true'' else ''false'')
                                | _ \<Rightarrow> []),
      toUpperCase = map upper_ascii\<rparr>"

section \<open>What the constructor stores in each field\<close>

lemma hostedZone_SecureWebsite:
  "hostedZone (SecureWebsite p) =
     (case hostedZoneId p of
        None \<Rightarrow> fromLookup (getApexDomain (SecureWebsiteProps.domainName p))
      | Some z \<Rightarrow> if z \<noteq> [] then fromHostedZoneId z
                  else fromLookup (getApexDomain (SecureWebsiteProps.domainName p)))"
  by (simp add: SecureWebsite_def Let_def split: prod.splits)

lemma bucket_SecureWebsite:
  "bucket (SecureWebsite p) =
     \<lparr>Bucket.bucketName = SecureWebsiteProps.bucketName p,
      publicReadAccess = False,
      blockPublicAccess = ''BlockPublicAccess.BLOCK_ALL'',
      removalPolicy = or_object (SecureWebsiteProps.removalPolicy p) DESTROY,
      autoDeleteObjects = (SecureWebsiteProps.removalPolicy p = Some DESTROY),
      versioned = Some True,
      encryption = Some ''BucketEncryption.S3_MANAGED'',
      lifecycleRules = None\<rparr>"
  by (simp add: SecureWebsite_def Let_def split: prod.splits)

lemma logsBucket_SecureWebsite:
  "logsBucket (SecureWebsite p) =
     (if SecureWebsiteProps.enableLogging p = Some True then
        Some \<lparr>Bucket.bucketName = logsBucketName p,
          publicReadAccess = False,
          blockPublicAccess = ''BlockPublicAccess.BLOCK_ALL'',
          removalPolicy = or_object (SecureWebsiteProps.removalPolicy p) DESTROY,
          autoDeleteObjects = (SecureWebsiteProps.removalPolicy p = Some DESTROY),
          versioned = None,
          encryption = None,
          lifecycleRules =
            Some [\<lparr>LifecycleRule.id = ''DeleteOldLogs'', enabled = True,
                   expiration = Duration_days 90\<rparr>]\<rparr>
      else None)"
  by (simp add: SecureWebsite_def Let_def split: prod.splits)

lemma webAcl_SecureWebsite:
  "webAcl (SecureWebsite p) =
     (if enableWaf p \<noteq> Some False
      then Some (fst (createWebAcl (or_object (wafRules p) getDefaultWafRules)))
      else None)"
  by (simp add: SecureWebsite_def Let_def split: prod.splits)

lemma ipSets_SecureWebsite:
  "ipSets (SecureWebsite p) =
     (if enableWaf p \<noteq> Some False
      then snd (createWebAcl (or_object (wafRules p) getDefaultWafRules))
      else [])"
  by (simp add: SecureWebsite_def Let_def split: prod.splits)

lemma webAclId_SecureWebsite:
  "webAclId (SecureWebsite.distribution (SecureWebsite p)) =
     (if enableWaf p \<noteq> Some False then Some (Attr ''WebACL'' ''attrArn'') else None)"
  by (simp add: SecureWebsite_def Let_def split: prod.splits)

lemma outputs_SecureWebsite:
  "SecureWebsite.outputs (SecureWebsite p) =
     createOutputs p (webAcl (SecureWebsite p)) (logsBucket (SecureWebsite p))"
  by (simp add: SecureWebsite_def Let_def split: prod.splits)



section \<open>Strings: splitting and joining\<close>

lemma split_not_Nil: "split c s \<noteq> []"
  by (induction s) (auto split: list.splits)

lemma split_without_separator: "c \<notin> set s \<Longrightarrow> split c s = [s]"
  by (induction s) auto

lemma split_at_separator: "c \<notin> set l \<Longrightarrow> split c (l @ c # r) = l # split c r"
  by (induction l) auto

lemma split_join:
  "ls \<noteq> [] \<Longrightarrow> \<forall>l\<in>set ls. c \<notin> set l \<Longrightarrow> split c (join [c] ls) = ls"
proof (induction ls)
  case Nil
  then show ?case by simp
next
  case (Cons x xs)
  show ?case
  proof (cases xs)
    case Nil
    with Cons.prems show ?thesis by (simp add: split_without_separator)
  next
    case (Cons y ys)
    with Cons.prems Cons.IH show ?thesis by (simp add: split_at_separator)
  qed
qed

lemma split_one_part: "length (split c s) < 2 \<Longrightarrow> split c s = [s]"
proof (induction s)
  case Nil
  then show ?case by simp
next
  case (Cons x xs)
  then show ?case
    by (cases "split c xs") (auto split: if_splits simp: split_not_Nil)
qed

lemma slice_last_two: "slice (- 2) xs = drop (length xs - 2) xs"
proof -
  have "nat (max (int (length xs) + - 2) 0) = length xs - 2" by linarith
  then show ?thesis by (simp add: slice_def Let_def)
qed

text \<open>
  With one part only (a name without a dot) the \<^verbatim>\<open>else\<close> branch returns the name, which
  is what joining the last two parts of a one-part list gives as well.
\<close>

lemma getApexDomain_last_two:
  "getApexDomain d = join ''.'' (drop (length (split CHR ''.'' d) - 2) (split CHR ''.'' d))"
proof (cases "length (split CHR ''.'' d) \<ge> 2")
  case True
  then show ?thesis by (simp add: getApexDomain_def slice_last_two Let_def)
next
  case False
  then have "split CHR ''.'' d = [d]" by (simp add: split_one_part)
  then show ?thesis by (simp add: getApexDomain_def)
qed

lemma getApexDomain_labels:
  assumes "ls \<noteq> []" and "\<forall>l\<in>set ls. CHR ''.'' \<notin> set l"
  shows "getApexDomain (join ''.'' ls) = join ''.'' (drop (length ls - 2) ls)"
  using assms by (simp add: getApexDomain_last_two split_join)

section \<open>The firewall rules, one by one\<close>

lemma or_number_2000_not_0: "or_number x (Num 2000) \<noteq> Num 0"
  by (cases x) auto

lemma createWafStatement_not_0:
  "fst (createWafStatement rule s) \<noteq> rateBasedStatement (Num 0) k"
  by (simp add: createWafStatement_def Let_def or_number_2000_not_0)

lemma createRuleProperties_not_0:
  "rp \<in> set (fst (createRuleProperties rs s)) \<Longrightarrow>
   statement rp \<noteq> rateBasedStatement (Num 0) k"
proof (induction rs arbitrary: s)
  case Nil
  then show ?case by simp
next
  case (Cons r rs)
  obtain st s1 where st: "createWafStatement r s = (st, s1)"
    by (cases "createWafStatement r s")
  obtain ws s2 where ws: "createRuleProperties rs s1 = (ws, s2)"
    by (cases "createRuleProperties rs s1")
  from st have "st \<noteq> rateBasedStatement (Num 0) k"
    using createWafStatement_not_0 [of r s k] by simp
  moreover from Cons.IH [of s1] ws
  have "rp \<in> set ws \<Longrightarrow> statement rp \<noteq> rateBasedStatement (Num 0) k"
    by simp
  ultimately show ?case using Cons.prems st ws by auto
qed

lemma createWebAcl_rules: "rules (fst (createWebAcl rs)) = fst (createRuleProperties rs [])"
  by (simp add: createWebAcl_def split: prod.splits)

lemma createWebAcl_default:
  "createWebAcl getDefaultWafRules =
     (\<lparr>CfnWebACL.scope = ''CLOUDFRONT'', defaultAction = Allow,
       rules =
         [\<lparr>RuleProperty.name = ''AWSManagedRulesCommonRuleSet'', priority = Num 1,
           action = Block,
           statement = managedRuleGroupStatement ''AWS'' ''AWSManagedRulesCommonRuleSet'',
           visibilityConfig =
             \<lparr>sampledRequestsEnabled = True, cloudWatchMetricsEnabled = True,
              metricName = ''AWSManagedRulesCommonRuleSet''\<rparr>\<rparr>,
          \<lparr>RuleProperty.name = ''AWSManagedRulesKnownBadInputsRuleSet'', priority = Num 2,
           action = Block,
           statement =
             managedRuleGroupStatement ''AWS'' ''AWSManagedRulesKnownBadInputsRuleSet'',
           visibilityConfig =
             \<lparr>sampledRequestsEnabled = True, cloudWatchMetricsEnabled = True,
              metricName = ''AWSManagedRulesKnownBadInputsRuleSet''\<rparr>\<rparr>,
          \<lparr>RuleProperty.name = ''AWSManagedRulesLinuxRuleSet'', priority = Num 3,
           action = Block,
           statement = managedRuleGroupStatement ''AWS'' ''AWSManagedRulesLinuxRuleSet'',
           visibilityConfig =
             \<lparr>sampledRequestsEnabled = True, cloudWatchMetricsEnabled = True,
              metricName = ''AWSManagedRulesLinuxRuleSet''\<rparr>\<rparr>,
          \<lparr>RuleProperty.name = ''RateLimitRule'', priority = Num 10,
           action = Block,
           statement = rateBasedStatement (Num 2000) ''IP'',
           visibilityConfig =
             \<lparr>sampledRequestsEnabled = True, cloudWatchMetricsEnabled = True,
              metricName = ''RateLimitRule''\<rparr>\<rparr>],
       visibilityConfig =
         \<lparr>sampledRequestsEnabled = True, cloudWatchMetricsEnabled = True,
          metricName = ''SecureWebsiteWAF''\<rparr>\<rparr>, [])"
  by (simp add: createWebAcl_def getDefaultWafRules_def createWafStatement_def
      createWafAction_def)

section \<open>AccountConfigStack: entries and property reads\<close>

lemma uploadEntries_constructs:
  "uploadEntries env prefix es (ids, cs, ps) = Inr (ids', cs', ps') \<Longrightarrow>
   cs' =
     cs @ map (\<lambda>(key, v).
          \<lparr>StringParameter.id = ''Parameter'' @ capitalizeFirst env key,
           parameterName = prefix @ ''/'' @ key,
           stringValue = (case v of JString s \<Rightarrow> s | _ \<Rightarrow> JSON_stringify env v),
           description = ''Account configuration value for '' @ key,
           tier = ''ParameterTier.STANDARD''\<rparr>) es"
proof (induction es arbitrary: ids cs ps)
  case Nil
  then show ?case by simp
next
  case (Cons e es)
  obtain key v where e: "e = (key, v)" by (cases e)
  let ?p = "\<lparr>StringParameter.id = ''Parameter'' @ capitalizeFirst env key,
           parameterName = prefix @ ''/'' @ key,
           stringValue = (case v of JString s \<Rightarrow> s | _ \<Rightarrow> JSON_stringify env v),
           description = ''Account configuration value for '' @ key,
           tier = ''ParameterTier.STANDARD''\<rparr>"
  from Cons.prems e obtain ids1 where
    rest: "uploadEntries env prefix es (ids1, cs @ [?p], set_property ps key ?p) = Inr (ids', cs', ps')"
    by (auto simp: Let_def split: sum.splits)
  from Cons.IH [OF rest] e show ?case by simp
qed

lemma one_entry_per_key:
  "distinct (map fst xs) \<Longrightarrow> (k, v) \<in> set xs \<Longrightarrow>
   length (filter (\<lambda>e. fst e = k) xs) = 1"
proof (induction xs)
  case Nil
  then show ?case by simp
next
  case (Cons x xs)
  show ?case
  proof (cases "fst x = k")
    case True
    with Cons.prems have "k \<notin> fst ` set xs" by simp
    then have "\<forall>e \<in> set xs. fst e \<noteq> k" by auto
    then have "filter (\<lambda>e. fst e = k) xs = []" by (simp add: filter_empty_conv)
    with True show ?thesis by simp
  next
    case False
    with Cons show ?thesis by auto
  qed
qed

lemma get_property_own:
  "distinct (map fst obj) \<Longrightarrow> (k, v) \<in> set obj \<Longrightarrow> get_property obj k = Own v"
  by (simp add: get_property_def)

lemma get_property_Undefined:
  "get_property obj k = Undefined \<longleftrightarrow> k \<notin> set (map fst obj) \<and> k \<notin> set Object_prototype"
  by (auto simp: get_property_def map_of_eq_None_iff split: option.splits dest: map_of_SomeD
      intro: rev_image_eqI)

lemma publish_entries:
  assumes ok: "publish env acct prefix (Record r) = Inr stack"
    and dist: "distinct (map fst r)"
  shows "config stack = Record r \<and>
     map (\<lambda>p. (parameterName p, stringValue p)) (constructs stack) =
       map (\<lambda>(key, v). (prefix @ ''/'' @ key,
                          case v of JString s \<Rightarrow> s | _ \<Rightarrow> JSON_stringify env v)) r \<and>
     (\<forall>(key, v) \<in> set r.
        length (filter (\<lambda>p. parameterName p = prefix @ ''/'' @ key) (constructs stack)) = 1 \<and>
        getConfigValue r key d = Raw v)"
proof -
  let ?mk = "\<lambda>e.
          \<lparr>StringParameter.id = ''Parameter'' @ capitalizeFirst env (fst e),
           parameterName = prefix @ ''/'' @ fst e,
           stringValue = (case snd e of JString s \<Rightarrow> s | _ \<Rightarrow> JSON_stringify env (snd e)),
           description = ''Account configuration value for '' @ fst e,
           tier = ''ParameterTier.STANDARD''\<rparr>"
  from ok obtain ids cs ps where
    up: "uploadEntries env prefix r ([], [], []) = Inr (ids, cs, ps)"
    and cfg: "config stack = Record r" and cs: "constructs stack = cs"
    by (auto simp: publish_def uploadConfigToParameterStore_def Object_entries_def
        split: sum.splits)
  from uploadEntries_constructs [OF up] cs
  have cs': "constructs stack = map ?mk r"
    by (simp add: case_prod_beta)
  have entries: "map (\<lambda>p. (parameterName p, stringValue p)) (constructs stack) =
       map (\<lambda>(key, v). (prefix @ ''/'' @ key,
                          case v of JString s \<Rightarrow> s | _ \<Rightarrow> JSON_stringify env v)) r"
    by (simp add: cs' case_prod_beta)
  have each: "length (filter (\<lambda>p. parameterName p = prefix @ ''/'' @ key) (constructs stack)) = 1 \<and>
        getConfigValue r key d = Raw v" if kv: "(key, v) \<in> set r" for key v
  proof -
    have "filter (\<lambda>p. parameterName p = prefix @ ''/'' @ key) (map ?mk r)
        = map ?mk (filter (\<lambda>e. fst e = key) r)"
      by (simp add: filter_map comp_def)
    then have "length (filter (\<lambda>p. parameterName p = prefix @ ''/'' @ key) (constructs stack)) = 1"
      using one_entry_per_key [OF dist kv] by (simp add: cs')
    moreover have "getConfigValue r key d = Raw v"
      using get_property_own [OF dist kv] by (simp add: getConfigValue_def)
    ultimately show ?thesis by simp
  qed
  from cfg entries each show ?thesis by blast
qed

lemma AccountConfigStack_own:
  assumes "readContext env (or_string (contextFilePath props) (defaultContextFilePath env)) = Inr ctx"
    and "acct = or_string (AccountConfigStackProps.accountId props) (Environment.account env)"
    and "map_of ctx acct = Some r"
  shows "AccountConfigStack env props =
     publish env acct (or_string (parameterPrefix props) (''/account-config/'' @ acct)) (Record r)"
  using assms by (simp add: AccountConfigStack_def Let_def get_property_def)

lemma AccountConfigStack_not_found:
  assumes "readContext env (or_string (contextFilePath props) (defaultContextFilePath env)) = Inr ctx"
    and "acct = or_string (AccountConfigStackProps.accountId props) (Environment.account env)"
    and "acct \<notin> set (map fst ctx)" and "acct \<notin> set Object_prototype"
  shows "AccountConfigStack env props =
     Inl (Error (''No configuration found for account ID '' @ [CHR 0x27] @ acct
                 @ [CHR 0x27] @ ''. Available accounts: '' @ join '', '' (map fst ctx)))"
proof -
  from assms(3,4) have "get_property ctx acct = Undefined"
    by (simp add: get_property_Undefined)
  with assms(1,2) show ?thesis by (simp add: AccountConfigStack_def Let_def)
qed

lemma AccountConfigStack_inherited:
  assumes "readContext env (or_string (contextFilePath props) (defaultContextFilePath env)) = Inr ctx"
    and "acct = or_string (AccountConfigStackProps.accountId props) (Environment.account env)"
    and "acct \<notin> set (map fst ctx)" and "acct \<in> set Object_prototype"
  shows "\<exists>stack. AccountConfigStack env props = Inr stack \<and>
     config stack = ObjectPrototypeMember acct \<and> constructs stack = [] \<and> parameters stack = []"
proof -
  from assms(3) have "map_of ctx acct = None" by (simp add: map_of_eq_None_iff)
  with assms(4) have "get_property ctx acct = Inherited acct"
    by (simp add: get_property_def)
  with assms(1,2) show ?thesis
    by (simp add: AccountConfigStack_def Let_def publish_def uploadConfigToParameterStore_def
        Object_entries_def createStackOutputs_def addChild_def)
qed

lemma getConfigValue_absent:
  "key \<notin> set (map fst r) \<Longrightarrow> key \<notin> set Object_prototype \<Longrightarrow>
   getConfigValue r key d = (case d of Some x \<Rightarrow> Default x | None \<Rightarrow> Absent)"
  using get_property_Undefined [of r key] by (simp add: getConfigValue_def)

lemma getConfigValue_inherited:
  "key \<notin> set (map fst r) \<Longrightarrow> key \<in> set Object_prototype \<Longrightarrow>
   getConfigValue r key d = Member key"
proof -
  assume "key \<notin> set (map fst r)" and inh: "key \<in> set Object_prototype"
  then have "map_of r key = None" by (simp add: map_of_eq_None_iff)
  with inh show ?thesis by (simp add: getConfigValue_def get_property_def)
qed

section \<open>Properties of SecureWebsite\<close>

text \<open>
  C1. The spec has the retention policy of the content store default to destroy, and the
  store's objects auto-purged whenever the resolved policy is destroy; so a spec that
  leaves \<^verbatim>\<open>removalPolicy\<close> unset should give a store with auto-purge. The constructor
  resolves the policy with \<^verbatim>\<open>props.removalPolicy || RemovalPolicy.DESTROY\<close> but decides
  the purge on the unresolved property, \<^verbatim>\<open>props.removalPolicy === RemovalPolicy.DESTROY\<close>:
  for the props of \<^verbatim>\<open>SimpleWebsiteStack\<close>, which leave it unset, the store has policy
  destroy and no auto-purge.
\<close>

theorem unset_removalPolicy_no_auto_purge:
  "Bucket.removalPolicy (bucket (SecureWebsite (minimalProps ''mysite.example.com''))) = DESTROY \<and>
   autoDeleteObjects (bucket (SecureWebsite (minimalProps ''mysite.example.com''))) = False"
  by (simp add: bucket_SecureWebsite minimalProps_def)

text \<open>
  C2. When the props omit \<^verbatim>\<open>wafRules\<close> and \<^verbatim>\<open>enableWaf\<close> is not \<^verbatim>\<open>false\<close>, the firewall
  has exactly four rules, with priorities 1, 2, 3 and 10 in this order: the managed rule
  groups common, known-bad-inputs and Linux, each with the block action, and a rate limit
  of 2000 with the block action. No address set is created.
\<close>

theorem default_firewall_rules:
  assumes "wafRules p = None" and "enableWaf p \<noteq> Some False"
  shows "map_option rules (webAcl (SecureWebsite p)) =
     Some [\<lparr>RuleProperty.name = ''AWSManagedRulesCommonRuleSet'', priority = Num 1,
           action = Block,
           statement = managedRuleGroupStatement ''AWS'' ''AWSManagedRulesCommonRuleSet'',
           visibilityConfig =
             \<lparr>sampledRequestsEnabled = True, cloudWatchMetricsEnabled = True,
              metricName = ''AWSManagedRulesCommonRuleSet''\<rparr>\<rparr>,
          \<lparr>RuleProperty.name = ''AWSManagedRulesKnownBadInputsRuleSet'', priority = Num 2,
           action = Block,
           statement =
             managedRuleGroupStatement ''AWS'' ''AWSManagedRulesKnownBadInputsRuleSet'',
           visibilityConfig =
             \<lparr>sampledRequestsEnabled = True, cloudWatchMetricsEnabled = True,
              metricName = ''AWSManagedRulesKnownBadInputsRuleSet''\<rparr>\<rparr>,
          \<lparr>RuleProperty.name = ''AWSManagedRulesLinuxRuleSet'', priority = Num 3,
           action = Block,
           statement = managedRuleGroupStatement ''AWS'' ''AWSManagedRulesLinuxRuleSet'',
           visibilityConfig =
             \<lparr>sampledRequestsEnabled = True, cloudWatchMetricsEnabled = True,
              metricName = ''AWSManagedRulesLinuxRuleSet''\<rparr>\<rparr>,
          \<lparr>RuleProperty.name = ''RateLimitRule'', priority = Num 10,
           action = Block,
           statement = rateBasedStatement (Num 2000) ''IP'',
           visibilityConfig =
             \<lparr>sampledRequestsEnabled = True, cloudWatchMetricsEnabled = True,
              metricName = ''RateLimitRule''\<rparr>\<rparr>]
     \<and> ipSets (SecureWebsite p) = []"
  using assms by (simp add: webAcl_SecureWebsite ipSets_SecureWebsite createWebAcl_default)

theorem default_firewall_rules_witness:
  "wafRules (minimalProps ''mysite.example.com'') = None \<and>
   enableWaf (minimalProps ''mysite.example.com'') \<noteq> Some False \<and>
   map_option (map RuleProperty.priority \<circ> rules)
     (webAcl (SecureWebsite (minimalProps ''mysite.example.com'')))
     = Some [Num 1, Num 2, Num 3, Num 10]"
proof -
  let ?p = "minimalProps ''mysite.example.com''"
  have h1: "wafRules ?p = None" by (simp add: minimalProps_def)
  have h2: "enableWaf ?p \<noteq> Some False" by (simp add: minimalProps_def)
  from default_firewall_rules [OF h1 h2]
  have "map_option (map RuleProperty.priority \<circ> rules) (webAcl (SecureWebsite ?p))
     = Some [Num 1, Num 2, Num 3, Num 10]"
    by (cases "webAcl (SecureWebsite ?p)") auto
  with h1 h2 show ?thesis by blast
qed

text \<open>
  C6. When \<^verbatim>\<open>enableWaf\<close> is \<^verbatim>\<open>false\<close>, no web ACL and no address set is created, the
  distribution has no \<^verbatim>\<open>webAclId\<close>, and no output has the id \<^verbatim>\<open>WebAclArn\<close> or a value
  that refers to the web ACL.
\<close>

theorem no_firewall_when_disabled:
  assumes "enableWaf p = Some False"
  shows "webAcl (SecureWebsite p) = None \<and> ipSets (SecureWebsite p) = [] \<and>
     webAclId (SecureWebsite.distribution (SecureWebsite p)) = None \<and>
     (\<forall>out \<in> set (SecureWebsite.outputs (SecureWebsite p)).
        CfnOutput.id out \<noteq> ''WebAclArn'' \<and> (\<forall>a. Tok (Attr ''WebACL'' a) \<notin> set (value out)))"
  using assms
  by (simp add: webAcl_SecureWebsite ipSets_SecureWebsite webAclId_SecureWebsite
      outputs_SecureWebsite createOutputs_def)

theorem no_firewall_when_disabled_witness:
  "enableWaf ((minimalProps ''mysite.example.com'')\<lparr>enableWaf := Some False\<rparr>) = Some False \<and>
   webAcl (SecureWebsite ((minimalProps ''mysite.example.com'')\<lparr>enableWaf := Some False\<rparr>)) = None \<and>
   ipSets (SecureWebsite ((minimalProps ''mysite.example.com'')\<lparr>enableWaf := Some False\<rparr>)) = [] \<and>
   webAclId (SecureWebsite.distribution
     (SecureWebsite ((minimalProps ''mysite.example.com'')\<lparr>enableWaf := Some False\<rparr>))) = None \<and>
   map CfnOutput.id
     (SecureWebsite.outputs
       (SecureWebsite ((minimalProps ''mysite.example.com'')\<lparr>enableWaf := Some False\<rparr>)))
     = [''WebsiteUrl'', ''BucketName'', ''DistributionId'', ''CertificateArn'']"
proof -
  let ?p = "(minimalProps ''mysite.example.com'')\<lparr>enableWaf := Some False\<rparr>"
  have h: "enableWaf ?p = Some False" by simp
  have ids: "map CfnOutput.id (SecureWebsite.outputs (SecureWebsite ?p))
     = [''WebsiteUrl'', ''BucketName'', ''DistributionId'', ''CertificateArn'']"
    by (simp add: outputs_SecureWebsite webAcl_SecureWebsite logsBucket_SecureWebsite
        createOutputs_def minimalProps_def)
  from no_firewall_when_disabled [OF h] h ids show ?thesis by blast
qed

text \<open>
  C8. When no \<^verbatim>\<open>hostedZoneId\<close> is given, the zone is looked up by the last two
  dot-separated labels of the domain name (by the name itself when it has one label
  only). The instance below is the spec's example: \<^verbatim>\<open>www.myadvancedsite.example.com\<close> is looked
  up as \<^verbatim>\<open>example.com\<close>.
\<close>

theorem apex_zone_lookup:
  assumes "hostedZoneId p = None"
    and "SecureWebsiteProps.domainName p = join ''.'' ls"
    and "ls \<noteq> []"
    and "\<forall>l\<in>set ls. CHR ''.'' \<notin> set l"
  shows "hostedZone (SecureWebsite p) = fromLookup (join ''.'' (drop (length ls - 2) ls))"
  using assms by (simp add: hostedZone_SecureWebsite getApexDomain_labels)

theorem apex_zone_lookup_witness:
  "hostedZoneId (minimalProps ''www.myadvancedsite.example.com'') = None \<and>
   SecureWebsiteProps.domainName (minimalProps ''www.myadvancedsite.example.com'')
     = join ''.'' [''www'', ''myadvancedsite'', ''example'', ''com''] \<and>
   hostedZone (SecureWebsite (minimalProps ''www.myadvancedsite.example.com''))
     = fromLookup ''example.com''"
proof -
  let ?p = "minimalProps ''www.myadvancedsite.example.com''"
  let ?ls = "[''www'', ''myadvancedsite'', ''example'', ''com'']"
  have h1: "hostedZoneId ?p = None" by (simp add: minimalProps_def)
  have h2: "SecureWebsiteProps.domainName ?p = join ''.'' ?ls" by (simp add: minimalProps_def)
  have h3: "?ls \<noteq> []" by simp
  have h4: "\<forall>l\<in>set ?ls. CHR ''.'' \<notin> set l" by simp
  from apex_zone_lookup [OF h1 h2 h3 h4]
  have "hostedZone (SecureWebsite ?p) = fromLookup ''example.com''" by simp
  with h1 h2 show ?thesis by blast
qed



section \<open>Properties of the firewall rule translator\<close>

text \<open>
  C5. The action mapping is total over strings: \<^verbatim>\<open>ALLOW\<close> gives the allow action,
  \<^verbatim>\<open>BLOCK\<close> block, \<^verbatim>\<open>COUNT\<close> count, and every other string gives the allow action
  too; no string makes it fail.
\<close>

theorem createWafAction_total:
  "createWafAction ''ALLOW'' = Allow \<and> createWafAction ''BLOCK'' = Block \<and>
   createWafAction ''COUNT'' = Count \<and>
   (a \<noteq> ''ALLOW'' \<and> a \<noteq> ''BLOCK'' \<and> a \<noteq> ''COUNT'' \<longrightarrow> createWafAction a = Allow)"
  by (simp add: createWafAction_def)

theorem createWafAction_total_witness:
  "''DENY'' \<noteq> ''ALLOW'' \<and> ''DENY'' \<noteq> ''BLOCK'' \<and> ''DENY'' \<noteq> ''COUNT'' \<and>
   createWafAction ''DENY'' = Allow"
proof -
  have h: "''DENY'' \<noteq> ''ALLOW'' \<and> ''DENY'' \<noteq> ''BLOCK'' \<and> ''DENY'' \<noteq> ''COUNT''"
    by simp
  from createWafAction_total [of "''DENY''"] h have "createWafAction ''DENY'' = Allow"
    by blast
  with h show ?thesis by blast
qed

text \<open>
  C10. A rate-limit rule whose configuration gives the limit 0 resolves to the ceiling
  2000, and one with a positive limit \<open>n\<close> to the ceiling \<open>n\<close>; no rule resolves to a
  rate-based statement with ceiling 0, neither by \<^verbatim>\<open>createWafStatement\<close> nor in the web ACL
  of a \<^verbatim>\<open>SecureWebsite\<close>.
\<close>

theorem rate_limit_ceiling:
  "(ruleType rule = ''RATE_LIMIT'' \<and> configuration rule = Some c \<and> limit c = Some (Num 0)
      \<longrightarrow> fst (createWafStatement rule s) = rateBasedStatement (Num 2000) ''IP'') \<and>
   (ruleType rule = ''RATE_LIMIT'' \<and> configuration rule = Some c \<and> limit c = Some (Num n) \<and> 0 < n
      \<longrightarrow> fst (createWafStatement rule s) = rateBasedStatement (Num n) ''IP'') \<and>
   fst (createWafStatement rule s) \<noteq> rateBasedStatement (Num 0) k \<and>
   (webAcl (SecureWebsite p) = Some acl \<and> rp \<in> set (rules acl)
      \<longrightarrow> statement rp \<noteq> rateBasedStatement (Num 0) k)"
proof (intro conjI impI)
  assume "ruleType rule = ''RATE_LIMIT'' \<and> configuration rule = Some c \<and> limit c = Some (Num 0)"
  then show "fst (createWafStatement rule s) = rateBasedStatement (Num 2000) ''IP''"
    by (simp add: createWafStatement_def)
next
  assume "ruleType rule = ''RATE_LIMIT'' \<and> configuration rule = Some c \<and> limit c = Some (Num n) \<and> 0 < n"
  then show "fst (createWafStatement rule s) = rateBasedStatement (Num n) ''IP''"
    by (simp add: createWafStatement_def)
next
  show "fst (createWafStatement rule s) \<noteq> rateBasedStatement (Num 0) k"
    by (rule createWafStatement_not_0)
next
  assume a: "webAcl (SecureWebsite p) = Some acl \<and> rp \<in> set (rules acl)"
  then have "acl = fst (createWebAcl (or_object (wafRules p) getDefaultWafRules))"
    by (simp add: webAcl_SecureWebsite split: if_splits)
  with a have "rp \<in> set (fst (createRuleProperties (or_object (wafRules p) getDefaultWafRules) []))"
    by (simp add: createWebAcl_rules)
  then show "statement rp \<noteq> rateBasedStatement (Num 0) k"
    by (rule createRuleProperties_not_0)
qed

theorem rate_limit_ceiling_witness:
  "ruleType (rateLimitRule (Some (Num 0))) = ''RATE_LIMIT'' \<and>
   Option.bind (configuration (rateLimitRule (Some (Num 0)))) limit = Some (Num 0) \<and>
   fst (createWafStatement (rateLimitRule (Some (Num 0))) []) = rateBasedStatement (Num 2000) ''IP'' \<and>
   ruleType (rateLimitRule (Some (Num 500))) = ''RATE_LIMIT'' \<and>
   Option.bind (configuration (rateLimitRule (Some (Num 500)))) limit = Some (Num 500) \<and>
   fst (createWafStatement (rateLimitRule (Some (Num 500))) []) = rateBasedStatement (Num 500) ''IP'' \<and>
   webAcl (SecureWebsite zeroLimitProps) = Some zeroLimitAcl \<and>
   zeroLimitRule \<in> set (rules zeroLimitAcl) \<and>
   statement zeroLimitRule \<noteq> rateBasedStatement (Num 0) ''IP''"
proof -
  let ?c0 = "\<lparr>limit = Some (Num 0), countryCodes = None, name = None, ipAddresses = None\<rparr>"
  let ?c500 = "\<lparr>limit = Some (Num 500), countryCodes = None, name = None, ipAddresses = None\<rparr>"
  have t0: "ruleType (rateLimitRule (Some (Num 0))) = ''RATE_LIMIT''"
    and c0: "configuration (rateLimitRule (Some (Num 0))) = Some ?c0"
    and t500: "ruleType (rateLimitRule (Some (Num 500))) = ''RATE_LIMIT''"
    and c500: "configuration (rateLimitRule (Some (Num 500))) = Some ?c500"
    by (simp_all add: rateLimitRule_def)
  have l0: "limit ?c0 = Some (Num 0)" and l500: "limit ?c500 = Some (Num 500)" and pos: "(0::real) < 500"
    by simp_all
  have acl: "webAcl (SecureWebsite zeroLimitProps) = Some zeroLimitAcl"
    by (simp add: webAcl_SecureWebsite zeroLimitProps_def minimalProps_def createWebAcl_def
        rateLimitRule_def createWafStatement_def createWafAction_def zeroLimitAcl_def
        zeroLimitRule_def)
  have mem: "zeroLimitRule \<in> set (rules zeroLimitAcl)"
    by (simp add: zeroLimitAcl_def)
  have r0: "fst (createWafStatement (rateLimitRule (Some (Num 0))) []) = rateBasedStatement (Num 2000) ''IP''"
    using rate_limit_ceiling [of "rateLimitRule (Some (Num 0))" ?c0 "[]"] t0 c0 l0 by blast
  have r500: "fst (createWafStatement (rateLimitRule (Some (Num 500))) []) = rateBasedStatement (Num 500) ''IP''"
    using rate_limit_ceiling [of "rateLimitRule (Some (Num 500))" ?c500 "[]" 500] t500 c500 l500 pos by blast
  have nz: "statement zeroLimitRule \<noteq> rateBasedStatement (Num 0) ''IP''"
    using rate_limit_ceiling [of _ _ _ _ "''IP''" zeroLimitProps zeroLimitAcl zeroLimitRule] acl mem by blast
  from t0 c0 l0 r0 t500 c500 l500 r500 acl mem nz show ?thesis by simp
qed

section \<open>Properties of AccountConfigStack\<close>

text \<open>
  C3. The spec has the stack publish exactly one entry, at \<open>prefix\<close>\<^verbatim>\<open>/\<close>\<open>key\<close>, for every
  key of every parsed account record. The constructor declares the parameter of a key
  under the construct id \<^verbatim>\<open>Parameter\<close> followed by the key with its first letter in upper
  case, so two keys that differ in the case of their first letter only ask for the same
  id: for the record with \<^verbatim>\<open>stage\<close> and \<^verbatim>\<open>Stage\<close> the scope refuses the second parameter,
  the constructor throws, and no entry is published for either key. With keys that do not
  collide the entries are as the spec says: the record of account \<^verbatim>\<open>123456789013\<close> under
  the prefix \<^verbatim>\<open>/my-app/config\<close> gives its string unchanged and its boolean serialized, and
  the spec's example gives the two entries at \<^verbatim>\<open>/account-config/123456789012/stage\<close> and
  \<^verbatim>\<open>/account-config/123456789012/zone\<close>, with \<^verbatim>\<open>getConfigValue("stage")\<close> being \<^verbatim>\<open>"dev"\<close>
  (\<open>publish_entries\<close> is the general statement for a constructor that returns).
\<close>

theorem colliding_keys_rejected:
  "distinct (map fst mixedCaseRecord) \<and>
   AccountConfigStack secondEnvironment
     \<lparr>AccountConfigStackProps.accountId = Some ''123456789012'', contextFilePath = None,
      parameterPrefix = None\<rparr> =
     Inl (DuplicateIdError ''ParameterStage'') \<and>
   map_sum (\<lambda>e. e) (\<lambda>stack. map (\<lambda>p. (parameterName p, stringValue p)) (constructs stack))
     (AccountConfigStack secondEnvironment
        \<lparr>AccountConfigStackProps.accountId = None, contextFilePath = None,
         parameterPrefix = Some ''/my-app/config''\<rparr>) =
     Inr [(''/my-app/config/stage'', ''prod''), (''/my-app/config/debug'', ''true'')] \<and>
   AccountConfigStack exampleEnvironment (exampleProps ''123456789012'') =
     Inr \<lparr>AccountConfigStack.accountId = ''123456789012'',
          config = Record exampleRecord,
          parameters =
            [(''stage'',
              \<lparr>StringParameter.id = ''ParameterStage'',
               parameterName = ''/account-config/123456789012/stage'',
               stringValue = ''dev'',
               description = ''Account configuration value for stage'',
               tier = ''ParameterTier.STANDARD''\<rparr>),
             (''zone'',
              \<lparr>StringParameter.id = ''ParameterZone'',
               parameterName = ''/account-config/123456789012/zone'',
               stringValue = ''dev.example.com'',
               description = ''Account configuration value for zone'',
               tier = ''ParameterTier.STANDARD''\<rparr>)],
          constructs =
            [\<lparr>StringParameter.id = ''ParameterStage'',
              parameterName = ''/account-config/123456789012/stage'',
              stringValue = ''dev'',
              description = ''Account configuration value for stage'',
              tier = ''ParameterTier.STANDARD''\<rparr>,
             \<lparr>StringParameter.id = ''ParameterZone'',
              parameterName = ''/account-config/123456789012/zone'',
              stringValue = ''dev.example.com'',
              description = ''Account configuration value for zone'',
              tier = ''ParameterTier.STANDARD''\<rparr>],
          outputs =
            [\<lparr>CfnOutput.id = ''AccountId'', value = [Lit ''123456789012''],
              description = ''AWS Account ID''\<rparr>,
             \<lparr>CfnOutput.id = ''ParameterPrefix'',
              value = [Lit ''/account-config/123456789012''],
              description = ''Parameter Store prefix for account configuration''\<rparr>,
             \<lparr>CfnOutput.id = ''ConfigKeys'', value = [Lit ''stage,zone''],
              description = ''Available configuration keys''\<rparr>,
             \<lparr>CfnOutput.id = ''StageParameterArn'',
              value = [Tok (Attr ''ParameterStage'' ''parameterArn'')],
              description = ''Parameter Store ARN for stage''\<rparr>,
             \<lparr>CfnOutput.id = ''ZoneParameterArn'',
              value = [Tok (Attr ''ParameterZone'' ''parameterArn'')],
              description = ''Parameter Store ARN for zone''\<rparr>]\<rparr> \<and>
   getConfigValue exampleRecord ''stage'' (None :: string option) = Raw (JString ''dev'')"
  by (simp add: AccountConfigStack_def Let_def publish_def secondEnvironment_def
      mixedCaseRecord_def flagRecord_def exampleEnvironment_def exampleProps_def
      exampleContext_def exampleRecord_def get_property_def uploadConfigToParameterStore_def
      Object_entries_def createStackOutputs_def getAllConfigKeys_def addChild_def
      capitalizeFirst_def upper_ascii_def set_property_def getConfigValue_def)

text \<open>
  C4. The spec has the resolution fail, with a message that lists the available ids, for
  every account id that is not a key of the document. The constructor tests
  \<^verbatim>\<open>!accountsContext[this.accountId]\<close>, a read that also finds the members of
  \<^verbatim>\<open>Object.prototype\<close>: for the account id \<^verbatim>\<open>constructor\<close>, which is no key of the
  example document, the constructor does not fail and returns a stack with no parameter.
  For \<^verbatim>\<open>999999999999\<close> it fails as the spec says (\<open>AccountConfigStack_not_found\<close> is the
  general statement).
\<close>

theorem inherited_account_id_accepted:
  "''constructor'' \<notin> set (map fst exampleContext) \<and>
   AccountConfigStack exampleEnvironment (exampleProps ''constructor'') =
     Inr \<lparr>AccountConfigStack.accountId = ''constructor'',
          config = ObjectPrototypeMember ''constructor'',
          parameters = [],
          constructs = [],
          outputs =
            [\<lparr>CfnOutput.id = ''AccountId'', value = [Lit ''constructor''],
              description = ''AWS Account ID''\<rparr>,
             \<lparr>CfnOutput.id = ''ParameterPrefix'',
              value = [Lit ''/account-config/constructor''],
              description = ''Parameter Store prefix for account configuration''\<rparr>,
             \<lparr>CfnOutput.id = ''ConfigKeys'', value = [Lit []],
              description = ''Available configuration keys''\<rparr>]\<rparr> \<and>
   AccountConfigStack exampleEnvironment (exampleProps ''999999999999'') =
     Inl (Error (''No configuration found for account ID '' @ [CHR 0x27] @ ''999999999999''
                 @ [CHR 0x27] @ ''. Available accounts: 123456789012''))"
  by (simp add: AccountConfigStack_def Let_def publish_def exampleEnvironment_def
      exampleProps_def exampleContext_def exampleRecord_def get_property_def
      Object_prototype_def uploadConfigToParameterStore_def Object_entries_def
      createStackOutputs_def getAllConfigKeys_def addChild_def)

text \<open>
  C7. The spec has \<^verbatim>\<open>getConfigValue\<close> return the default, or undefined when none is given,
  for every key that the record does not have. The method reads \<^verbatim>\<open>this.config[key]\<close>,
  which also finds the members of \<^verbatim>\<open>Object.prototype\<close>: for the key \<^verbatim>\<open>constructor\<close>, which
  the example record does not have, it returns that member, with or without a default,
  and \<^verbatim>\<open>hasConfig\<close> is true. For \<^verbatim>\<open>region\<close> the default is returned
  (\<open>getConfigValue_absent\<close> is the general statement).
\<close>

theorem inherited_key_not_defaulted:
  "''constructor'' \<notin> set (map fst exampleRecord) \<and>
   getConfigValue exampleRecord ''constructor'' (Some ''fallback'') = Member ''constructor'' \<and>
   getConfigValue exampleRecord ''constructor'' (None :: string option) = Member ''constructor'' \<and>
   hasConfig exampleRecord ''constructor'' \<and>
   getConfigValue exampleRecord ''region'' (Some ''fallback'') = Default ''fallback''"
  by (simp add: getConfigValue_def hasConfig_def get_property_def exampleRecord_def
      Object_prototype_def)

end
